theory Spec2Isabelle
  imports Complex_Main "HOL-Library.Word"
begin

section \<open>The boids simulation of main8.py\<close>

text \<open>
  The embedding follows \<^verbatim>\<open>src/main8.py\<close>, the last of the eight evolutions of the
  simulation. Python floats are modelled as reals with exact arithmetic; every place where
  the Python raises (normalising a zero vector, dividing by zero) is a branch of the model
  that returns the exception as a value. The model therefore follows the program where
  rounding does not decide the outcome. It does not follow it where a vector is so short
  that its squared length underflows: there the length computed in IEEE doubles is
  imprecise or zero, the unit vector computed from it is not of length 1, and nothing
  proved here about exact lengths carries over. The random initialisation (\<^verbatim>\<open>Boid.__init__\<close>,
  \<^verbatim>\<open>initialize_attractors\<close>), the drawing (\<^verbatim>\<open>Boid.draw\<close>, the surfaces) and the event
  handling of \<^verbatim>\<open>main\<close> change no state that the force model or the integrator reads
  within a tick, and are not modelled.
\<close>

subsection \<open>Exceptions\<close>

datatype error = ValueError | ZeroDivisionError | NotANumber

text \<open>
  \<open>ValueError\<close> and \<open>ZeroDivisionError\<close> are the exceptions the program raises.
  \<open>NotANumber\<close> is no exception: it marks the one place where numpy goes on with a nan,
  whose conversion to an unsigned byte is not defined, so that the model has no value to
  give.
\<close>

text \<open>Sequencing of two computations that may raise: the first exception wins.\<close>

definition and_then :: "error + 'a \<Rightarrow> ('a \<Rightarrow> error + 'b) \<Rightarrow> error + 'b" where
  "and_then r f = (case r of Inl e \<Rightarrow> Inl e | Inr v \<Rightarrow> f v)"

text \<open>Python's \<^verbatim>\<open>a / b\<close> on numbers.\<close>

definition py_div :: "real \<Rightarrow> real \<Rightarrow> error + real" where
  "py_div a b = (if b = 0 then Inl ZeroDivisionError else Inr (a / b))"

text \<open>Python's \<^verbatim>\<open>int(r)\<close> on a float: truncation toward zero.\<close>

definition py_int :: "real \<Rightarrow> int" where
  "py_int r = (if 0 \<le> r then \<lfloor>r\<rfloor> else \<lceil>r\<rceil>)"

subsection \<open>pygame.Vector2\<close>

datatype Vector2 = Vector2 (vec_x: real) (vec_y: real)

definition vec_add :: "Vector2 \<Rightarrow> Vector2 \<Rightarrow> Vector2" where
  "vec_add u v = Vector2 (vec_x u + vec_x v) (vec_y u + vec_y v)"

definition vec_sub :: "Vector2 \<Rightarrow> Vector2 \<Rightarrow> Vector2" where
  "vec_sub u v = Vector2 (vec_x u - vec_x v) (vec_y u - vec_y v)"

definition vec_mul :: "Vector2 \<Rightarrow> real \<Rightarrow> Vector2" where
  "vec_mul v s = Vector2 (vec_x v * s) (vec_y v * s)"

text \<open>\<^verbatim>\<open>s * v\<close>, the scalar on the left.\<close>

definition vec_rmul :: "real \<Rightarrow> Vector2 \<Rightarrow> Vector2" where
  "vec_rmul s v = Vector2 (s * vec_x v) (s * vec_y v)"

text \<open>\<^verbatim>\<open>v / s\<close> raises ZeroDivisionError for \<^verbatim>\<open>s == 0\<close>.\<close>

definition vec_div :: "Vector2 \<Rightarrow> real \<Rightarrow> error + Vector2" where
  "vec_div v s = (if s = 0 then Inl ZeroDivisionError
                  else Inr (Vector2 (vec_x v / s) (vec_y v / s)))"

definition vec_length :: "Vector2 \<Rightarrow> real" where
  "vec_length v = sqrt (vec_x v * vec_x v + vec_y v * vec_y v)"

text \<open>\<^verbatim>\<open>v.normalize()\<close> raises ValueError ("Can't normalize Vector of length Zero").\<close>

definition vec_normalize :: "Vector2 \<Rightarrow> error + Vector2" where
  "vec_normalize v = (if vec_length v = 0 then Inl ValueError
                  else Inr (Vector2 (vec_x v / vec_length v) (vec_y v / vec_length v)))"

definition distance_to :: "Vector2 \<Rightarrow> Vector2 \<Rightarrow> real" where
  "distance_to u v = vec_length (vec_sub v u)"

text \<open>The dot product is not used by the program; the specification states properties with it.\<close>

definition dot :: "Vector2 \<Rightarrow> Vector2 \<Rightarrow> real" where
  "dot u v = vec_x u * vec_x v + vec_y u * vec_y v"

subsection \<open>Configuration\<close>

text \<open>
  The module-level constants that the force model and the integrator read. The screen
  dimensions are overwritten at start-up from the monitor, and the specification states
  scenarios with other values of the speeds and of the attractor parameters, so they are
  the fields of a record; \<open>main8_config\<close> holds the values written in main8.py (with
  the screen dimensions it has before the overwrite).
\<close>

record config =
  SCREEN_WIDTH :: int
  SCREEN_HEIGHT :: int
  START_SPEED :: real
  MAX_SPEED :: real
  PERCEPTION_RADIUS :: real
  SEPARATION_RADIUS :: real
  RANDOMNESS_WEIGHT :: real
  MASS_EQUIVALENT :: real
  TURN_FACTOR :: real
  SPEED_ADJUSTMENT_FACTOR :: real
  ATTRACTOR_FORCE :: real
  ATTRACTOR_FORCE_MAX :: real
  ATTRACTOR_FORCE_DISTANCE_EXP :: int

definition main8_config :: config where
  "main8_config = \<lparr>
     SCREEN_WIDTH = 1500, SCREEN_HEIGHT = 1000,
     START_SPEED = 2.25, MAX_SPEED = 5,
     PERCEPTION_RADIUS = 30, SEPARATION_RADIUS = 40,
     RANDOMNESS_WEIGHT = 0.225, MASS_EQUIVALENT = 2,
     TURN_FACTOR = 0.0325, SPEED_ADJUSTMENT_FACTOR = 0.3,
     ATTRACTOR_FORCE = 10, ATTRACTOR_FORCE_MAX = 20,
     ATTRACTOR_FORCE_DISTANCE_EXP = - 1 \<rparr>"

text \<open>\<^verbatim>\<open>BOUNDARY_PERCEPTION = PERCEPTION_RADIUS\<close>\<close>

definition BOUNDARY_PERCEPTION :: "config \<Rightarrow> real" where
  "BOUNDARY_PERCEPTION cfg = PERCEPTION_RADIUS cfg"

text \<open>\<^verbatim>\<open>ACCELERATION_UPPER_EXPECTED = MAX_SPEED / 10\<close>\<close>

definition ACCELERATION_UPPER_EXPECTED :: "config \<Rightarrow> real" where
  "ACCELERATION_UPPER_EXPECTED cfg = MAX_SPEED cfg / 10"

definition PROXIMITY_NORMALIZATION :: real where
  "PROXIMITY_NORMALIZATION = 5"

definition BASE_COLOR :: "int \<times> int \<times> int" where
  "BASE_COLOR = (50, 50, 50)"

definition ATTRACTOR_COLOR_FACTOR :: real where
  "ATTRACTOR_COLOR_FACTOR = 2"

definition BG_SCALE :: real where
  "BG_SCALE = 0.25"

subsection \<open>Colours\<close>

definition clamp_color :: "int \<Rightarrow> int" where
  "clamp_color color = max 0 (min 255 color)"

definition clamp_colors :: "int \<Rightarrow> int \<Rightarrow> int \<Rightarrow> int \<times> int \<times> int" where
  "clamp_colors r g b = (clamp_color r, clamp_color g, clamp_color b)"

definition get_color :: "int \<Rightarrow> real \<Rightarrow> int" where
  "get_color base_value factor = base_value + py_int ((255 - real_of_int base_value) * factor)"

subsection \<open>class Boid\<close>

record Boid =
  position :: Vector2
  velocity :: Vector2
  acceleration :: Vector2
  color :: "int \<times> int \<times> int"
  cohesion_weight :: real
  alignment_weight :: real
  separation_weight :: real
  noise_offset_x :: real
  noise_offset_y :: real

text \<open>
  The methods of \<open>Boid\<close> mutate only \<open>self\<close>. A method that also reads the list
  \<open>boids\<close> takes \<open>self\<close>, the index \<open>i\<close> of \<open>self\<close> in the list, and the list: the
  object comparison \<^verbatim>\<open>boid == self\<close> (identity, the class defines no \<^verbatim>\<open>__eq__\<close>) is
  the comparison of the loop index with \<open>i\<close>, so the entry at \<open>i\<close> is never read.
\<close>

subsubsection \<open>apply_attractors\<close>

text \<open>
  One iteration of the loop over the attractors (main8.py lines 193 to 197). The length of
  \<open>direction\<close> and its unit vector are exact here. In the program a direction shorter
  than about \<open>1e-154\<close> has a squared length that is subnormal or zero: the computed length
  is then imprecise (the computed unit vector is longer or shorter than 1, so the
  contribution is not of magnitude \<^verbatim>\<open>acceleration\<close>) or zero (the guard skips the
  attractor). The model says nothing about directions that short.
\<close>

definition attractor_step :: "config \<Rightarrow> Boid \<Rightarrow> Vector2 \<Rightarrow> error + Boid" where
  "attractor_step cfg self attractor =
     (let direction = vec_sub attractor (position self) in
      if vec_length direction \<noteq> 0 then
        and_then (py_div (ATTRACTOR_FORCE cfg *
                           (vec_length direction powi ATTRACTOR_FORCE_DISTANCE_EXP cfg))
                         (MASS_EQUIVALENT cfg))
          (\<lambda>a. let a' = min a (ATTRACTOR_FORCE_MAX cfg) in
                and_then (vec_normalize direction)
                  (\<lambda>n. Inr (self\<lparr>acceleration := vec_add (acceleration self) (vec_mul n a')\<rparr>)))
      else Inr self)"

fun apply_attractors :: "config \<Rightarrow> Boid \<Rightarrow> Vector2 list \<Rightarrow> error + Boid" where
  "apply_attractors cfg self [] = Inr self"
| "apply_attractors cfg self (attractor # attractors) =
     and_then (attractor_step cfg self attractor)
       (\<lambda>self'. apply_attractors cfg self' attractors)"

subsubsection \<open>apply_rules\<close>

text \<open>
  The four accumulators of the neighbour scan; \<open>total_count\<close> is the local variable
  \<^verbatim>\<open>total\<close>.
\<close>

record rule_sums =
  separation :: Vector2
  alignment :: Vector2
  cohesion :: Vector2
  total_count :: nat

text \<open>
  The body of the loop for one other boid (main8.py lines 158 to 165). The separation test
  is nested in the perception test.
\<close>

definition scan_step :: "config \<Rightarrow> Boid \<Rightarrow> rule_sums \<Rightarrow> Boid \<Rightarrow> error + rule_sums" where
  "scan_step cfg self acc boid =
     (let distance = distance_to (position self) (position boid) in
      if distance < PERCEPTION_RADIUS cfg then
        and_then
          (if distance < SEPARATION_RADIUS cfg then
             (let diff = vec_sub (position self) (position boid) in
              and_then (vec_normalize diff)
                (\<lambda>n. and_then (vec_div n distance)
                  (\<lambda>d. Inr (vec_add (separation acc) d))))
           else Inr (separation acc))
          (\<lambda>sep. Inr (acc\<lparr>separation := sep,
                           alignment := vec_add (alignment acc) (velocity boid),
                           cohesion := vec_add (cohesion acc) (position boid),
                           total_count := total_count acc + 1\<rparr>))
      else Inr acc)"

text \<open>The loop over \<open>boids\<close>; \<open>j\<close> is the index of the head of the remaining list.\<close>

fun neighbor_scan :: "config \<Rightarrow> Boid \<Rightarrow> nat \<Rightarrow> nat \<Rightarrow> Boid list \<Rightarrow> rule_sums \<Rightarrow> error + rule_sums" where
  "neighbor_scan cfg self i j [] acc = Inr acc"
| "neighbor_scan cfg self i j (boid # boids) acc =
     (if j = i then neighbor_scan cfg self i (Suc j) boids acc
      else (case scan_step cfg self acc boid of
              Inl e \<Rightarrow> Inl e
            | Inr acc' \<Rightarrow> neighbor_scan cfg self i (Suc j) boids acc'))"

definition zero_sums :: rule_sums where
  "zero_sums = \<lparr>separation = Vector2 0 0, alignment = Vector2 0 0,
                 cohesion = Vector2 0 0, total_count = 0\<rparr>"

definition apply_rules :: "config \<Rightarrow> Boid \<Rightarrow> nat \<Rightarrow> Boid list \<Rightarrow> error + Boid" where
  "apply_rules cfg self i boids =
     and_then (neighbor_scan cfg self i 0 boids zero_sums)
       (\<lambda>s. if total_count s > 0 then
          (let a1 = vec_add (acceleration self) (vec_mul (separation s) (separation_weight self)) in
           and_then (vec_div (alignment s) (real (total_count s)))
             (\<lambda>al. let a2 = vec_add a1 (vec_mul al (alignment_weight self)) in
               and_then (vec_div (cohesion s) (real (total_count s)))
                 (\<lambda>c. and_then (vec_normalize (vec_sub c (position self)))
                   (\<lambda>n. Inr (self\<lparr>acceleration :=
                                 vec_add a2 (vec_mul n (cohesion_weight self))\<rparr>)))))
        else Inr self)"

subsubsection \<open>avoid_edges\<close>

definition edge_force :: "config \<Rightarrow> Vector2 \<Rightarrow> Vector2" where
  "edge_force cfg p =
     (let margin = BOUNDARY_PERCEPTION cfg in
      Vector2
        (if vec_x p < margin then TURN_FACTOR cfg * (margin - vec_x p)
         else if vec_x p > real_of_int (SCREEN_WIDTH cfg) - margin
           then - TURN_FACTOR cfg * (vec_x p - (real_of_int (SCREEN_WIDTH cfg) - margin))
         else 0)
        (if vec_y p < margin then TURN_FACTOR cfg * (margin - vec_y p)
         else if vec_y p > real_of_int (SCREEN_HEIGHT cfg) - margin
           then - TURN_FACTOR cfg * (vec_y p - (real_of_int (SCREEN_HEIGHT cfg) - margin))
         else 0))"

definition avoid_edges :: "config \<Rightarrow> Boid \<Rightarrow> Boid" where
  "avoid_edges cfg self =
     self\<lparr>acceleration := vec_add (acceleration self) (edge_force cfg (position self))\<rparr>"

subsubsection \<open>add_noise\<close>

text \<open>
  \<^verbatim>\<open>noise.pnoise1\<close> belongs to an external library; it is the parameter \<open>pnoise1\<close>.
\<close>

definition add_noise :: "(real \<Rightarrow> real) \<Rightarrow> config \<Rightarrow> Boid \<Rightarrow> Boid" where
  "add_noise pnoise1 cfg self =
     (let nx = pnoise1 (noise_offset_x self);
          ny = pnoise1 (noise_offset_y self) in
      self\<lparr>acceleration :=
               vec_add (acceleration self) (vec_mul (Vector2 nx ny) (RANDOMNESS_WEIGHT cfg)),
           noise_offset_x := noise_offset_x self + 0.01,
           noise_offset_y := noise_offset_y self + 0.01\<rparr>)"

subsubsection \<open>update_color\<close>

fun proximity_scan :: "config \<Rightarrow> Boid \<Rightarrow> nat \<Rightarrow> nat \<Rightarrow> Boid list \<Rightarrow> real \<Rightarrow> real" where
  "proximity_scan cfg self i j [] proximity = proximity"
| "proximity_scan cfg self i j (boid # boids) proximity =
     (if j = i then proximity_scan cfg self i (Suc j) boids proximity
      else (let distance = distance_to (position self) (position boid) in
            if distance < PERCEPTION_RADIUS cfg
            then proximity_scan cfg self i (Suc j) boids
                   (proximity + (PERCEPTION_RADIUS cfg - distance))
            else proximity_scan cfg self i (Suc j) boids proximity))"

definition update_color :: "config \<Rightarrow> Boid \<Rightarrow> nat \<Rightarrow> Boid list \<Rightarrow> error + Boid" where
  "update_color cfg self i boids =
     (let proximity = proximity_scan cfg self i 0 boids 0 in
      and_then (py_div proximity (PERCEPTION_RADIUS cfg))
        (\<lambda>q. and_then (py_div q PROXIMITY_NORMALIZATION)
          (\<lambda>proximity_factor.
            and_then (py_div (vec_length (acceleration self)) (ACCELERATION_UPPER_EXPECTED cfg))
              (\<lambda>r. and_then (py_div r (MAX_SPEED cfg))
                (\<lambda>t. let acceleration_factor = (t * 3) ^ 3 in
                  Inr (self\<lparr>color := clamp_colors
                               (get_color (fst BASE_COLOR) acceleration_factor)
                               (fst (snd BASE_COLOR))
                               (get_color (snd (snd BASE_COLOR)) proximity_factor)\<rparr>))))))"

subsubsection \<open>update\<close>

text \<open>The speed cap (main8.py lines 140 and 141); \<open>speed\<close> is the value read at line 139.\<close>

definition speed_cap :: "config \<Rightarrow> real \<Rightarrow> Vector2 \<Rightarrow> error + Vector2" where
  "speed_cap cfg speed v =
     (if speed > MAX_SPEED cfg
      then and_then (vec_normalize v) (\<lambda>n. Inr (vec_mul n (MAX_SPEED cfg)))
      else Inr v)"

text \<open>The speed relaxation (lines 142 to 144), with the same \<open>speed\<close>.\<close>

definition speed_relax :: "config \<Rightarrow> real \<Rightarrow> Vector2 \<Rightarrow> error + Vector2" where
  "speed_relax cfg speed v =
     (if speed \<noteq> 0
      then (let new_speed = speed + (START_SPEED cfg - speed) * SPEED_ADJUSTMENT_FACTOR cfg in
            and_then (vec_normalize v) (\<lambda>n. Inr (vec_mul n new_speed)))
      else Inr v)"

text \<open>Lines 138 to 144: the velocity after inertia, cap and relaxation.\<close>

definition integrate_velocity :: "config \<Rightarrow> Boid \<Rightarrow> error + Vector2" where
  "integrate_velocity cfg self =
     and_then (vec_div (acceleration self) (MASS_EQUIVALENT cfg))
       (\<lambda>dv. let v = vec_add (velocity self) dv;
                  speed = vec_length v in
              and_then (speed_cap cfg speed v) (speed_relax cfg speed))"

text \<open>Lines 132 to 136: the acceleration accumulated from the four force models.\<close>

definition accumulate_forces ::
  "(real \<Rightarrow> real) \<Rightarrow> config \<Rightarrow> Boid \<Rightarrow> nat \<Rightarrow> Boid list \<Rightarrow> Vector2 list \<Rightarrow> error + Boid" where
  "accumulate_forces pnoise1 cfg self i boids attractors =
     and_then (apply_rules cfg (self\<lparr>acceleration := Vector2 0 0\<rparr>) i boids)
       (\<lambda>s. apply_attractors cfg (add_noise pnoise1 cfg (avoid_edges cfg s)) attractors)"

definition update ::
  "(real \<Rightarrow> real) \<Rightarrow> config \<Rightarrow> Boid \<Rightarrow> nat \<Rightarrow> Boid list \<Rightarrow> Vector2 list \<Rightarrow> error + Boid" where
  "update pnoise1 cfg self i boids attractors =
     and_then (accumulate_forces pnoise1 cfg self i boids attractors)
       (\<lambda>s. and_then (integrate_velocity cfg s)
         (\<lambda>v. and_then
                 (update_color cfg (s\<lparr>velocity := v, position := vec_add (position s) v\<rparr>)
                    i boids)
                 (\<lambda>s'. Inr (s'\<lparr>velocity := vec_rmul 0.95 (velocity s')\<rparr>))))"

subsection \<open>The update loop of main\<close>

text \<open>
  \<^verbatim>\<open>for boid in boids: boid.update(boids, attractors)\<close> (main8.py lines 260 and 261): the
  boids are updated in place, in list order. An exception leaves the loop and ends the
  program.
\<close>

fun update_loop ::
  "(real \<Rightarrow> real) \<Rightarrow> config \<Rightarrow> Vector2 list \<Rightarrow> nat list \<Rightarrow> Boid list \<Rightarrow> error + Boid list" where
  "update_loop pnoise1 cfg attractors [] boids = Inr boids"
| "update_loop pnoise1 cfg attractors (i # is) boids =
     (case update pnoise1 cfg (boids ! i) i boids attractors of
        Inl e \<Rightarrow> Inl e
      | Inr b \<Rightarrow> update_loop pnoise1 cfg attractors is (boids[i := b]))"

definition tick ::
  "(real \<Rightarrow> real) \<Rightarrow> config \<Rightarrow> Vector2 list \<Rightarrow> Boid list \<Rightarrow> error + Boid list" where
  "tick pnoise1 cfg attractors boids =
     update_loop pnoise1 cfg attractors [0..<length boids] boids"

text \<open>
  The tick as the specification words it: every agent is updated from a read-only snapshot
  of the population taken at the start of the tick.
\<close>

fun snapshot_updates ::
  "(real \<Rightarrow> real) \<Rightarrow> config \<Rightarrow> Vector2 list \<Rightarrow> Boid list \<Rightarrow> nat list \<Rightarrow> error + Boid list" where
  "snapshot_updates pnoise1 cfg attractors snapshot [] = Inr []"
| "snapshot_updates pnoise1 cfg attractors snapshot (i # is) =
     (case update pnoise1 cfg (snapshot ! i) i snapshot attractors of
        Inl e \<Rightarrow> Inl e
      | Inr b \<Rightarrow> (case snapshot_updates pnoise1 cfg attractors snapshot is of
                   Inl e \<Rightarrow> Inl e
                 | Inr bs \<Rightarrow> Inr (b # bs)))"

definition snapshot_tick ::
  "(real \<Rightarrow> real) \<Rightarrow> config \<Rightarrow> Vector2 list \<Rightarrow> Boid list \<Rightarrow> error + Boid list" where
  "snapshot_tick pnoise1 cfg attractors boids =
     snapshot_updates pnoise1 cfg attractors boids [0..<length boids]"

subsection \<open>compute_background_surface\<close>

text \<open>
  \<^verbatim>\<open>np.linspace(start, stop, num)\<close>: \<open>num\<close> evenly spaced samples with both end points;
  a negative \<open>num\<close> raises ValueError.
\<close>

definition linspace :: "real \<Rightarrow> real \<Rightarrow> int \<Rightarrow> error + real list" where
  "linspace start stop num =
     (if num < 0 then Inl ValueError
      else if num = 1 then Inr [start]
      else Inr (map (\<lambda>k. start + real k * ((stop - start) / real_of_int (num - 1)))
                  [0..<nat num]))"

text \<open>
  One iteration of the loop over the attractors (lines 93 to 104) at the grid point
  \<open>(X, Y)\<close>; numpy runs it on all grid points at once. \<open>net\<close> is the pair
  \<open>(net_fx, net_fy)\<close> at that point.
\<close>

definition field_step :: "config \<Rightarrow> real \<Rightarrow> real \<Rightarrow> real \<times> real \<Rightarrow> Vector2 \<Rightarrow> real \<times> real" where
  "field_step cfg X Y net attractor =
     (let dx = vec_x attractor - X;
          dy = vec_y attractor - Y;
          dist = max (sqrt (dx ^ 2 + dy ^ 2)) (1 / 100000);
          force = min (ATTRACTOR_FORCE cfg * (dist powi ATTRACTOR_FORCE_DISTANCE_EXP cfg))
                      (ATTRACTOR_FORCE_MAX cfg);
          nx = dx / dist;
          ny = dy / dist
      in (fst net + nx * force, snd net + ny * force))"

fun net_field :: "config \<Rightarrow> real \<Rightarrow> real \<Rightarrow> real \<times> real \<Rightarrow> Vector2 list \<Rightarrow> real \<times> real" where
  "net_field cfg X Y net [] = net"
| "net_field cfg X Y net (attractor # attractors) =
     net_field cfg X Y (field_step cfg X Y net attractor) attractors"

text \<open>
  Lines 106 to 109 at one grid point. \<^verbatim>\<open>np.clip(b, 0, 255).astype(np.uint8)\<close> truncates
  into an unsigned byte. numpy divides by a zero \<^verbatim>\<open>ATTRACTOR_FORCE_MAX\<close> without raising
  (it warns): a positive \<^verbatim>\<open>net_force\<close> gives inf, which the clip turns into 255; a zero
  \<^verbatim>\<open>net_force\<close> gives nan, which passes the clip and has no defined conversion to a byte.
\<close>

definition cell_brightness :: "config \<Rightarrow> Vector2 list \<Rightarrow> real \<Rightarrow> real \<Rightarrow> error + 8 word" where
  "cell_brightness cfg attractors X Y =
     (let net = net_field cfg X Y (0, 0) attractors;
          net_force = sqrt (fst net ^ 2 + snd net ^ 2) in
      if ATTRACTOR_FORCE_MAX cfg = 0
      then (if net_force = 0 then Inl NotANumber else Inr 255)
      else (let brightness = net_force / ATTRACTOR_FORCE_MAX cfg * ATTRACTOR_COLOR_FACTOR * 255
            in Inr (word_of_int (py_int (max 0 (min 255 brightness))))))"

fun brightness_row :: "config \<Rightarrow> Vector2 list \<Rightarrow> real \<Rightarrow> real list \<Rightarrow> error + 8 word list" where
  "brightness_row cfg attractors Y [] = Inr []"
| "brightness_row cfg attractors Y (X # xs) =
     (case cell_brightness cfg attractors X Y of
        Inl e \<Rightarrow> Inl e
      | Inr c \<Rightarrow> (case brightness_row cfg attractors Y xs of
                   Inl e \<Rightarrow> Inl e
                 | Inr cs \<Rightarrow> Inr (c # cs)))"

fun brightness_rows ::
  "config \<Rightarrow> Vector2 list \<Rightarrow> real list \<Rightarrow> real list \<Rightarrow> error + 8 word list list" where
  "brightness_rows cfg attractors xs [] = Inr []"
| "brightness_rows cfg attractors xs (Y # ys) =
     (case brightness_row cfg attractors Y xs of
        Inl e \<Rightarrow> Inl e
      | Inr r \<Rightarrow> (case brightness_rows cfg attractors xs ys of
                   Inl e \<Rightarrow> Inl e
                 | Inr rs \<Rightarrow> Inr (r # rs)))"

text \<open>
  The brightness grid of \<open>compute_background_surface\<close> (the array \<^verbatim>\<open>brightness\<close> of line
  109, of shape \<open>(bg_height, bg_width)\<close>), a list of rows. The conversion of the grid to a
  pygame surface and its upscaling are rendering and are not modelled.
\<close>

definition compute_background_surface :: "config \<Rightarrow> Vector2 list \<Rightarrow> error + 8 word list list" where
  "compute_background_surface cfg attractors =
     (let bg_width = py_int (real_of_int (SCREEN_WIDTH cfg) * BG_SCALE);
          bg_height = py_int (real_of_int (SCREEN_HEIGHT cfg) * BG_SCALE) in
      and_then (linspace 0 (real_of_int (SCREEN_WIDTH cfg)) bg_width)
        (\<lambda>xs. and_then (linspace 0 (real_of_int (SCREEN_HEIGHT cfg)) bg_height)
          (\<lambda>ys. brightness_rows cfg attractors xs ys)))"

text \<open>
  What \<open>compute_background_surface\<close> is meant to depend on besides the attractors: the
  world bounds and the three constants of the attractor force. The specification calls the
  sampler a pure function of the attractor set and the world bounds; this predicate states
  when two configurations give it the same inputs.
\<close>

definition same_field_inputs :: "config \<Rightarrow> config \<Rightarrow> bool" where
  "same_field_inputs c c' \<longleftrightarrow>
     SCREEN_WIDTH c = SCREEN_WIDTH c' \<and> SCREEN_HEIGHT c = SCREEN_HEIGHT c' \<and>
     ATTRACTOR_FORCE c = ATTRACTOR_FORCE c' \<and> ATTRACTOR_FORCE_MAX c = ATTRACTOR_FORCE_MAX c' \<and>
     ATTRACTOR_FORCE_DISTANCE_EXP c = ATTRACTOR_FORCE_DISTANCE_EXP c'"

subsection \<open>Example inputs\<close>

text \<open>
  A boid as \<^verbatim>\<open>Boid.__init__\<close> can create it, at position \<open>p\<close> with velocity \<open>v\<close>: the
  three random factors of the weights are 1 and both noise offsets are 0.
\<close>

definition example_boid :: "Vector2 \<Rightarrow> Vector2 \<Rightarrow> Boid" where
  "example_boid p v = \<lparr>position = p, velocity = v, acceleration = Vector2 0 0,
     color = (0, 0, 0), cohesion_weight = 0.4, alignment_weight = 0.2, separation_weight = 3,
     noise_offset_x = 0, noise_offset_y = 0\<rparr>"

text \<open>
  Two such boids on a horizontal line, 31 apart (just outside each other's perception
  radius of 30), flying toward each other at \<open>START_SPEED\<close>.
\<close>

definition example_flock :: "Boid list" where
  "example_flock = [example_boid (Vector2 500 500) (Vector2 (9/4) 0),
                    example_boid (Vector2 531 500) (Vector2 (- (9/4)) 0)]"

text \<open>
  Perlin noise is zero at every integer argument, so the example boids, whose noise offsets
  are 0, sample the value 0; the examples run with a noise function that is 0 everywhere.
\<close>

definition flat_noise :: "real \<Rightarrow> real" where
  "flat_noise t = 0"

section \<open>Properties\<close>

subsection \<open>Vectors\<close>

lemma and_then_Inl: "and_then (Inl e) f = Inl e"
  by (simp add: and_then_def)

lemma and_then_Inr: "and_then (Inr v) f = f v"
  by (simp add: and_then_def)

lemma vec_length_horizontal: "vec_length (Vector2 a 0) = \<bar>a\<bar>"
  by (simp add: vec_length_def)

lemma vec_length_vertical: "vec_length (Vector2 0 b) = \<bar>b\<bar>"
  by (simp add: vec_length_def)

lemma vec_length_nonneg: "0 \<le> vec_length v"
  by (simp add: vec_length_def)

lemma vec_length_vec_mul: "vec_length (vec_mul v s) = \<bar>s\<bar> * vec_length v"
proof -
  have "vec_x v * s * (vec_x v * s) + vec_y v * s * (vec_y v * s)
        = s\<^sup>2 * (vec_x v * vec_x v + vec_y v * vec_y v)"
    by (simp add: power2_eq_square algebra_simps)
  then show ?thesis
    by (simp add: vec_length_def vec_mul_def real_sqrt_mult)
qed

lemma vec_length_squared:
  "vec_length v * vec_length v = vec_x v * vec_x v + vec_y v * vec_y v"
  by (simp add: vec_length_def)

lemma vec_normalize_defined: "vec_length v \<noteq> 0 \<Longrightarrow> \<exists>n. vec_normalize v = Inr n"
  by (simp add: vec_normalize_def)

lemma vec_normalize_unit:
  assumes "vec_normalize v = Inr n"
  shows "vec_length n = 1"
proof -
  have nz: "vec_length v \<noteq> 0"
    and n: "n = Vector2 (vec_x v / vec_length v) (vec_y v / vec_length v)"
    using assms by (auto simp: vec_normalize_def split: if_splits)
  have pos: "0 < vec_length v"
    using nz vec_length_nonneg[of v] by simp
  have "vec_x n * vec_x n + vec_y n * vec_y n
        = (vec_x v * vec_x v + vec_y v * vec_y v) / (vec_length v * vec_length v)"
    by (simp add: n add_divide_distrib)
  also have "\<dots> = (vec_length v * vec_length v) / (vec_length v * vec_length v)"
    by (simp only: vec_length_squared)
  also have "\<dots> = 1"
    using pos by simp
  finally show ?thesis
    by (simp add: vec_length_def)
qed

lemma dot_vec_normalize:
  assumes "vec_normalize v = Inr n"
  shows "dot n v = vec_length v"
proof -
  have nz: "vec_length v \<noteq> 0"
    and n: "n = Vector2 (vec_x v / vec_length v) (vec_y v / vec_length v)"
    using assms by (auto simp: vec_normalize_def split: if_splits)
  have "dot n v = (vec_x v * vec_x v + vec_y v * vec_y v) / vec_length v"
    by (simp add: n dot_def add_divide_distrib)
  also have "\<dots> = vec_length v"
    using vec_length_squared[of v] nz by (metis nonzero_mult_div_cancel_left)
  finally show ?thesis .
qed

subsection \<open>The attractor field\<close>

text \<open>
  C7. With one attractor at \<open>(100, 100)\<close>, \<open>ATTRACTOR_FORCE = 10\<close>,
  \<open>ATTRACTOR_FORCE_DISTANCE_EXP = -1\<close>, \<open>ATTRACTOR_FORCE_MAX = 30\<close>, mass equivalent 1 and
  an agent at \<open>(200, 100)\<close>, \<open>apply_attractors\<close> adds to the agent's acceleration a vector
  of magnitude exactly \<open>0.1\<close> along the unit direction \<open>(-1, 0)\<close>. The other fields of the
  configuration and of the agent are arbitrary.
\<close>

theorem attractor_scenario:
  "apply_attractors
     (cfg\<lparr>ATTRACTOR_FORCE := 10, ATTRACTOR_FORCE_DISTANCE_EXP := - 1,
          ATTRACTOR_FORCE_MAX := 30, MASS_EQUIVALENT := 1\<rparr>)
     (self\<lparr>position := Vector2 200 100\<rparr>) [Vector2 100 100]
   = Inr (self\<lparr>position := Vector2 200 100,
               acceleration := vec_add (acceleration self) (vec_mul (Vector2 (- 1) 0) (1 / 10))\<rparr>)
   \<and> vec_length (vec_mul (Vector2 (- 1) 0) (1 / 10)) = 1 / 10
   \<and> vec_length (Vector2 (- 1) 0) = 1"
  by (simp add: attractor_step_def vec_sub_def vec_length_horizontal vec_normalize_def py_div_def
       and_then_def vec_length_vec_mul)

lemma vec_sub_vec_add_cancel: "vec_sub (vec_add a c) a = c"
  by (cases a; cases c) (simp add: vec_sub_def vec_add_def)

subsection \<open>The flocking force model\<close>

lemma scan_step_out_of_range:
  "PERCEPTION_RADIUS cfg \<le> distance_to (position self) (position boid) \<Longrightarrow>
   scan_step cfg self acc boid = Inr acc"
  by (simp add: scan_step_def Let_def)

lemma neighbor_scan_no_neighbors:
  assumes "\<forall>k<length boids. j + k \<noteq> i \<longrightarrow>
             PERCEPTION_RADIUS cfg \<le> distance_to (position self) (position (boids ! k))"
  shows "neighbor_scan cfg self i j boids acc = Inr acc"
  using assms
proof (induction boids arbitrary: j)
  case Nil
  then show ?case by simp
next
  case (Cons boid boids)
  have tl: "\<forall>k<length boids. Suc j + k \<noteq> i \<longrightarrow>
             PERCEPTION_RADIUS cfg \<le> distance_to (position self) (position (boids ! k))"
  proof (intro allI impI)
    fix k assume "k < length boids" "Suc j + k \<noteq> i"
    then show "PERCEPTION_RADIUS cfg \<le> distance_to (position self) (position (boids ! k))"
      using Cons.prems[rule_format, of "Suc k"] by simp
  qed
  have hd: "j \<noteq> i \<Longrightarrow>
     PERCEPTION_RADIUS cfg \<le> distance_to (position self) (position boid)"
    using Cons.prems[rule_format, of 0] by simp
  show ?case
    using Cons.IH[OF tl] hd by (auto simp: scan_step_out_of_range)
qed

text \<open>
  C5. When every other boid of the list is at distance at least \<open>PERCEPTION_RADIUS\<close>
  from the subject (so that the neighbour count stays 0), \<open>apply_rules\<close> returns the
  subject unchanged: the flocking force model adds the zero vector to the acceleration
  accumulator, and it raises nothing.
\<close>

theorem no_neighbors_no_flocking:
  assumes "\<forall>j<length boids. j \<noteq> i \<longrightarrow>
             PERCEPTION_RADIUS cfg \<le> distance_to (position self) (position (boids ! j))"
  shows "apply_rules cfg self i boids = Inr self"
proof -
  have "neighbor_scan cfg self i 0 boids zero_sums = Inr zero_sums"
    using assms by (intro neighbor_scan_no_neighbors) simp
  then show ?thesis
    by (simp add: apply_rules_def and_then_def zero_sums_def)
qed

theorem no_neighbors_no_flocking_witness:
  "PERCEPTION_RADIUS main8_config \<le>
     distance_to (position (example_boid (Vector2 500 500) (Vector2 (9/4) 0)))
       (position (example_boid (Vector2 531 500) (Vector2 (- (9/4)) 0))) \<and>
   apply_rules main8_config (example_boid (Vector2 500 500) (Vector2 (9/4) 0)) 0
     [example_boid (Vector2 500 500) (Vector2 (9/4) 0),
      example_boid (Vector2 531 500) (Vector2 (- (9/4)) 0)]
   = Inr (example_boid (Vector2 500 500) (Vector2 (9/4) 0))"
proof -
  let ?a = "example_boid (Vector2 500 500) (Vector2 (9/4) 0)"
  let ?b = "example_boid (Vector2 531 500) (Vector2 (- (9/4)) 0)"
  have d: "distance_to (position ?a) (position ?b) = 31"
    by (simp add: example_boid_def distance_to_def vec_sub_def vec_length_horizontal)
  have far: "PERCEPTION_RADIUS main8_config \<le> distance_to (position ?a) (position ?b)"
    by (simp add: d main8_config_def)
  have h: "\<forall>j<length [?a, ?b]. j \<noteq> 0 \<longrightarrow>
      PERCEPTION_RADIUS main8_config \<le> distance_to (position ?a) (position ([?a, ?b] ! j))"
    using far by (simp add: less_Suc_eq)
  show ?thesis
    using no_neighbors_no_flocking[OF h] far by blast
qed

lemma dot_vec_div:
  "s \<noteq> 0 \<Longrightarrow> vec_div n s = Inr d \<Longrightarrow> dot d v = dot n v / s"
  by (auto simp: vec_div_def dot_def add_divide_distrib split: if_splits)

text \<open>
  C3, as amended. The separation test is nested in the perception test, so a neighbour
  repels the subject only when its distance is below both radii. For an agent \<open>boid\<close> at
  positive distance below \<open>PERCEPTION_RADIUS\<close> and below \<open>SEPARATION_RADIUS\<close> from
  \<open>self\<close>, the loop body succeeds and the vector it adds to the separation accumulator, also
  after scaling by a positive separation weight, has a positive dot product with
  \<open>self.position - boid.position\<close>.
\<close>

theorem separation_points_away:
  assumes "0 < distance_to (position self) (position boid)"
    and "distance_to (position self) (position boid) < PERCEPTION_RADIUS cfg"
    and "distance_to (position self) (position boid) < SEPARATION_RADIUS cfg"
  shows "\<exists>acc'. scan_step cfg self acc boid = Inr acc' \<and>
           0 < dot (vec_sub (separation acc') (separation acc))
                   (vec_sub (position self) (position boid)) \<and>
           (0 < separation_weight self \<longrightarrow>
            0 < dot (vec_mul (vec_sub (separation acc') (separation acc)) (separation_weight self))
                    (vec_sub (position self) (position boid)))"
proof -
  let ?diff = "vec_sub (position self) (position boid)"
  let ?d = "distance_to (position self) (position boid)"
  have len: "vec_length ?diff = ?d"
    by (simp add: distance_to_def vec_sub_def vec_length_def power2_commute[of "vec_x (position self)"]
          ) (simp add: algebra_simps)
  then have nz: "vec_length ?diff \<noteq> 0"
    using assms(1) by simp
  obtain n where n: "vec_normalize ?diff = Inr n"
    using vec_normalize_defined[OF nz] by blast
  have dnz: "?d \<noteq> 0" using assms(1) by simp
  obtain q where q: "vec_div n ?d = Inr q"
    using dnz by (simp add: vec_div_def)
  have st: "scan_step cfg self acc boid =
      Inr (acc\<lparr>separation := vec_add (separation acc) q,
               alignment := vec_add (alignment acc) (velocity boid),
               cohesion := vec_add (cohesion acc) (position boid),
               total_count := total_count acc + 1\<rparr>)"
    using assms(2,3) n q by (simp add: scan_step_def Let_def and_then_def)
  have "dot q ?diff = dot n ?diff / ?d"
    using dot_vec_div[OF dnz q] .
  also have "\<dots> = 1"
    using dot_vec_normalize[OF n] len dnz by simp
  finally have one: "dot q ?diff = 1" .
  have "dot (vec_mul q (separation_weight self)) ?diff = separation_weight self * dot q ?diff"
    by (simp add: dot_def vec_mul_def algebra_simps)
  then have "dot (vec_mul q (separation_weight self)) ?diff = separation_weight self"
    using one by simp
  then show ?thesis
    using st one by (simp add: vec_sub_vec_add_cancel)
qed

theorem separation_points_away_witness:
  "0 < distance_to (position (example_boid (Vector2 500 500) (Vector2 (9/4) 0)))
         (position (example_boid (Vector2 510 500) (Vector2 0 (9/4)))) \<and>
   0 < separation_weight (example_boid (Vector2 500 500) (Vector2 (9/4) 0)) \<and>
   (\<exists>acc'. scan_step main8_config (example_boid (Vector2 500 500) (Vector2 (9/4) 0)) zero_sums
             (example_boid (Vector2 510 500) (Vector2 0 (9/4))) = Inr acc' \<and>
      0 < dot (vec_mul (vec_sub (separation acc') (separation zero_sums))
                 (separation_weight (example_boid (Vector2 500 500) (Vector2 (9/4) 0))))
              (vec_sub (position (example_boid (Vector2 500 500) (Vector2 (9/4) 0)))
                 (position (example_boid (Vector2 510 500) (Vector2 0 (9/4))))))"
proof -
  let ?a = "example_boid (Vector2 500 500) (Vector2 (9/4) 0)"
  let ?b = "example_boid (Vector2 510 500) (Vector2 0 (9/4))"
  have d: "distance_to (position ?a) (position ?b) = 10"
    by (simp add: example_boid_def distance_to_def vec_sub_def vec_length_horizontal)
  have h1: "0 < distance_to (position ?a) (position ?b)"
    and h2: "distance_to (position ?a) (position ?b) < PERCEPTION_RADIUS main8_config"
    and h3: "distance_to (position ?a) (position ?b) < SEPARATION_RADIUS main8_config"
    by (simp_all add: d main8_config_def)
  have w: "0 < separation_weight ?a"
    by (simp add: example_boid_def)
  show ?thesis
    using separation_points_away[OF h1 h2 h3, of zero_sums] h1 w by blast
qed

text \<open>
  C3 as stated fails: with the constants of main8.py, \<open>SEPARATION_RADIUS = 40\<close> exceeds
  \<open>PERCEPTION_RADIUS = 30\<close>. Two agents 35 apart are closer than the separation radius,
  yet the loop body leaves the separation accumulator as it is and \<open>apply_rules\<close> returns
  the subject unchanged: the separation contribution is the zero vector, whose dot product
  with the offset is not positive.
\<close>

theorem separation_radius_counterexample:
  "0 < distance_to (position (example_boid (Vector2 500 500) (Vector2 (9/4) 0)))
         (position (example_boid (Vector2 535 500) (Vector2 0 (9/4)))) \<and>
   distance_to (position (example_boid (Vector2 500 500) (Vector2 (9/4) 0)))
         (position (example_boid (Vector2 535 500) (Vector2 0 (9/4))))
     < SEPARATION_RADIUS main8_config \<and>
   scan_step main8_config (example_boid (Vector2 500 500) (Vector2 (9/4) 0)) zero_sums
     (example_boid (Vector2 535 500) (Vector2 0 (9/4))) = Inr zero_sums \<and>
   \<not> 0 < dot (vec_sub (separation zero_sums) (separation zero_sums))
             (vec_sub (position (example_boid (Vector2 500 500) (Vector2 (9/4) 0)))
                (position (example_boid (Vector2 535 500) (Vector2 0 (9/4))))) \<and>
   apply_rules main8_config (example_boid (Vector2 500 500) (Vector2 (9/4) 0)) 0
     [example_boid (Vector2 500 500) (Vector2 (9/4) 0),
      example_boid (Vector2 535 500) (Vector2 0 (9/4))]
     = Inr (example_boid (Vector2 500 500) (Vector2 (9/4) 0))"
proof -
  let ?a = "example_boid (Vector2 500 500) (Vector2 (9/4) 0)"
  let ?b = "example_boid (Vector2 535 500) (Vector2 0 (9/4))"
  have d: "distance_to (position ?a) (position ?b) = 35"
    by (simp add: example_boid_def distance_to_def vec_sub_def vec_length_horizontal)
  have far: "PERCEPTION_RADIUS main8_config \<le> distance_to (position ?a) (position ?b)"
    by (simp add: d main8_config_def)
  have st: "scan_step main8_config ?a zero_sums ?b = Inr zero_sums"
    using far by (rule scan_step_out_of_range)
  have ns: "neighbor_scan main8_config ?a 0 0 [?a, ?b] zero_sums = Inr zero_sums"
    by (simp add: st)
  have ar: "apply_rules main8_config ?a 0 [?a, ?b] = Inr ?a"
    unfolding apply_rules_def ns by (simp add: and_then_def zero_sums_def)
  have z: "\<not> 0 < dot (vec_sub (separation zero_sums) (separation zero_sums))
             (vec_sub (position ?a) (position ?b))"
    by (simp add: dot_def vec_sub_def)
  have r: "distance_to (position ?a) (position ?b) < SEPARATION_RADIUS main8_config"
    by (simp add: d main8_config_def)
  show ?thesis
    using d st ar z r by simp
qed

subsection \<open>The boundary force model\<close>

text \<open>
  C9. Let \<open>f\<close> be the vector that \<open>avoid_edges\<close> adds to the acceleration, \<open>m\<close> the
  margin \<open>BOUNDARY_PERCEPTION\<close>, and \<open>W\<close>, \<open>H\<close> the screen dimensions. The distance of
  a coordinate to an edge is measured inward from that edge (\<open>px\<close> for the left edge,
  \<open>W - px\<close> for the right one), so it is negative for an agent that has left the world.
  On each axis, independently of the other: when the distance to the lower edge is less
  than \<open>m\<close>, the component of \<open>f\<close> is \<open>TURN_FACTOR * (m - distance)\<close>; when the distance
  to the upper edge is less than \<open>m\<close> (in a world at least two margins wide, where the
  two edge strips do not overlap), it is \<open>- TURN_FACTOR * (m - distance)\<close>; outside both
  strips it is 0. The force is linear in the penetration depth \<open>m - distance\<close>, and for a
  positive \<open>TURN_FACTOR\<close> it points inward.
\<close>

theorem boundary_force:
  fixes cfg :: config and self :: Boid
  defines "m \<equiv> BOUNDARY_PERCEPTION cfg"
    and "W \<equiv> real_of_int (SCREEN_WIDTH cfg)"
    and "H \<equiv> real_of_int (SCREEN_HEIGHT cfg)"
    and "px \<equiv> vec_x (position self)"
    and "py \<equiv> vec_y (position self)"
    and "f \<equiv> vec_sub (acceleration (avoid_edges cfg self)) (acceleration self)"
  shows "(px < m \<longrightarrow> vec_x f = TURN_FACTOR cfg * (m - px))
       \<and> (2 * m \<le> W \<and> W - px < m \<longrightarrow> vec_x f = - (TURN_FACTOR cfg * (m - (W - px))))
       \<and> (m \<le> px \<and> m \<le> W - px \<longrightarrow> vec_x f = 0)
       \<and> (py < m \<longrightarrow> vec_y f = TURN_FACTOR cfg * (m - py))
       \<and> (2 * m \<le> H \<and> H - py < m \<longrightarrow> vec_y f = - (TURN_FACTOR cfg * (m - (H - py))))
       \<and> (m \<le> py \<and> m \<le> H - py \<longrightarrow> vec_y f = 0)
       \<and> (0 < TURN_FACTOR cfg \<and> px < m \<longrightarrow> 0 < vec_x f)
       \<and> (0 < TURN_FACTOR cfg \<and> 2 * m \<le> W \<and> W - px < m \<longrightarrow> vec_x f < 0)
       \<and> (0 < TURN_FACTOR cfg \<and> py < m \<longrightarrow> 0 < vec_y f)
       \<and> (0 < TURN_FACTOR cfg \<and> 2 * m \<le> H \<and> H - py < m \<longrightarrow> vec_y f < 0)"
proof -
  have f: "f = edge_force cfg (position self)"
    by (simp add: f_def avoid_edges_def vec_sub_vec_add_cancel)
  have x1: "px < m \<Longrightarrow> vec_x f = TURN_FACTOR cfg * (m - px)"
    by (simp add: f edge_force_def m_def px_def Let_def)
  have x2: "2 * m \<le> W \<Longrightarrow> W - px < m \<Longrightarrow> vec_x f = - (TURN_FACTOR cfg * (m - (W - px)))"
    by (simp add: f edge_force_def m_def px_def W_def Let_def algebra_simps)
  have x3: "m \<le> px \<Longrightarrow> m \<le> W - px \<Longrightarrow> vec_x f = 0"
    by (simp add: f edge_force_def m_def px_def W_def Let_def)
  have y1: "py < m \<Longrightarrow> vec_y f = TURN_FACTOR cfg * (m - py)"
    by (simp add: f edge_force_def m_def py_def Let_def)
  have y2: "2 * m \<le> H \<Longrightarrow> H - py < m \<Longrightarrow> vec_y f = - (TURN_FACTOR cfg * (m - (H - py)))"
    by (simp add: f edge_force_def m_def py_def H_def Let_def algebra_simps)
  have y3: "m \<le> py \<Longrightarrow> m \<le> H - py \<Longrightarrow> vec_y f = 0"
    by (simp add: f edge_force_def m_def py_def H_def Let_def)
  have s1: "0 < TURN_FACTOR cfg \<Longrightarrow> px < m \<Longrightarrow> 0 < vec_x f"
    using x1 by simp
  have s2: "0 < TURN_FACTOR cfg \<Longrightarrow> 2 * m \<le> W \<Longrightarrow> W - px < m \<Longrightarrow> vec_x f < 0"
    using x2 by simp
  have s3: "0 < TURN_FACTOR cfg \<Longrightarrow> py < m \<Longrightarrow> 0 < vec_y f"
    using y1 by simp
  have s4: "0 < TURN_FACTOR cfg \<Longrightarrow> 2 * m \<le> H \<Longrightarrow> H - py < m \<Longrightarrow> vec_y f < 0"
    using y2 by simp
  show ?thesis
    using x1 x2 x3 y1 y2 y3 s1 s2 s3 s4 by blast
qed

theorem boundary_force_witness:
  "vec_x (vec_sub (acceleration (avoid_edges main8_config
       (example_boid (Vector2 10 990) (Vector2 (9/4) 0))))
       (acceleration (example_boid (Vector2 10 990) (Vector2 (9/4) 0)))) = 13 / 20 \<and>
   vec_y (vec_sub (acceleration (avoid_edges main8_config
       (example_boid (Vector2 10 990) (Vector2 (9/4) 0))))
       (acceleration (example_boid (Vector2 10 990) (Vector2 (9/4) 0)))) = - (13 / 20) \<and>
   vec_x (vec_sub (acceleration (avoid_edges main8_config
       (example_boid (Vector2 1490 10) (Vector2 (9/4) 0))))
       (acceleration (example_boid (Vector2 1490 10) (Vector2 (9/4) 0)))) = - (13 / 20) \<and>
   vec_y (vec_sub (acceleration (avoid_edges main8_config
       (example_boid (Vector2 1490 10) (Vector2 (9/4) 0))))
       (acceleration (example_boid (Vector2 1490 10) (Vector2 (9/4) 0)))) = 13 / 20 \<and>
   vec_x (vec_sub (acceleration (avoid_edges main8_config
       (example_boid (Vector2 500 500) (Vector2 (9/4) 0))))
       (acceleration (example_boid (Vector2 500 500) (Vector2 (9/4) 0)))) = 0 \<and>
   vec_y (vec_sub (acceleration (avoid_edges main8_config
       (example_boid (Vector2 500 500) (Vector2 (9/4) 0))))
       (acceleration (example_boid (Vector2 500 500) (Vector2 (9/4) 0)))) = 0"
proof -
  let ?a = "example_boid (Vector2 10 990) (Vector2 (9/4) 0)"
  let ?b = "example_boid (Vector2 1490 10) (Vector2 (9/4) 0)"
  let ?c = "example_boid (Vector2 500 500) (Vector2 (9/4) 0)"
  have cfg: "BOUNDARY_PERCEPTION main8_config = 30" "TURN_FACTOR main8_config = 13 / 400"
    "real_of_int (SCREEN_WIDTH main8_config) = 1500"
    "real_of_int (SCREEN_HEIGHT main8_config) = 1000"
    by (simp_all add: main8_config_def BOUNDARY_PERCEPTION_def)
  have pos: "vec_x (position ?a) = 10" "vec_y (position ?a) = 990"
    "vec_x (position ?b) = 1490" "vec_y (position ?b) = 10"
    "vec_x (position ?c) = 500" "vec_y (position ?c) = 500"
    by (simp_all add: example_boid_def)
  show ?thesis
    using boundary_force[of ?a main8_config] boundary_force[of ?b main8_config]
      boundary_force[of ?c main8_config]
    unfolding cfg pos by simp
qed

subsection \<open>The integrator\<close>

text \<open>
  C8, as amended. Let \<open>v0\<close> be the velocity after the inertia update, \<open>speed\<close> its
  magnitude and \<open>new_speed = speed + (START_SPEED - speed) * SPEED_ADJUSTMENT_FACTOR\<close>.
  On a tick where \<open>speed\<close> is not zero and does not exceed \<open>MAX_SPEED\<close>, so that the cap
  leaves the velocity as it is, the velocity after the relaxation step is the unit vector
  of \<open>v0\<close> scaled by \<open>new_speed\<close>, and its magnitude is \<open>new_speed\<close>. Nothing is stated
  for a tick on which the cap fires. The configuration has a non-zero mass, a non-negative
  \<open>START_SPEED\<close> and an adjustment factor between 0 and 1. The witness is the scenario
  \<open>START_SPEED = 2\<close>, factor \<open>0.3\<close>, speed 5, new speed \<open>4.1\<close>.
\<close>

theorem relaxation_speed:
  fixes cfg :: config and self :: Boid
  defines "v0 \<equiv> vec_add (velocity self)
                   (Vector2 (vec_x (acceleration self) / MASS_EQUIVALENT cfg)
                            (vec_y (acceleration self) / MASS_EQUIVALENT cfg))"
  defines "speed \<equiv> vec_length v0"
  defines "new_speed \<equiv> speed + (START_SPEED cfg - speed) * SPEED_ADJUSTMENT_FACTOR cfg"
  assumes nz: "speed \<noteq> 0" and cap: "speed \<le> MAX_SPEED cfg"
    and M: "MASS_EQUIVALENT cfg \<noteq> 0"
    and st: "0 \<le> START_SPEED cfg"
    and f0: "0 \<le> SPEED_ADJUSTMENT_FACTOR cfg" and f1: "SPEED_ADJUSTMENT_FACTOR cfg \<le> 1"
  shows "\<exists>n. vec_normalize v0 = Inr n \<and>
             integrate_velocity cfg self = Inr (vec_mul n new_speed) \<and>
             vec_length (vec_mul n new_speed) = new_speed"
proof -
  obtain n where n: "vec_normalize v0 = Inr n"
    using nz vec_normalize_defined[of v0] by (auto simp: speed_def)
  have sp: "0 < speed"
    using nz vec_length_nonneg[of v0] by (simp add: speed_def)
  have "new_speed = speed * (1 - SPEED_ADJUSTMENT_FACTOR cfg)
                      + START_SPEED cfg * SPEED_ADJUSTMENT_FACTOR cfg"
    by (simp add: new_speed_def algebra_simps)
  moreover have "0 \<le> speed * (1 - SPEED_ADJUSTMENT_FACTOR cfg)"
    using sp f1 by simp
  moreover have "0 \<le> START_SPEED cfg * SPEED_ADJUSTMENT_FACTOR cfg"
    using st f0 by simp
  ultimately have ns: "0 \<le> new_speed"
    by simp
  have uncapped: "speed_cap cfg speed v0 = Inr v0"
    using cap by (simp add: speed_cap_def)
  have relax: "speed_relax cfg speed v0 = Inr (vec_mul n new_speed)"
    using nz n by (simp add: speed_relax_def and_then_def new_speed_def Let_def)
  have "integrate_velocity cfg self = Inr (vec_mul n new_speed)"
    using M uncapped relax
    by (simp add: integrate_velocity_def vec_div_def and_then_def Let_def
          v0_def[symmetric] speed_def[symmetric])
  moreover have "vec_length (vec_mul n new_speed) = new_speed"
    using ns by (simp add: vec_length_vec_mul vec_normalize_unit[OF n])
  ultimately show ?thesis
    using n by blast
qed

theorem relaxation_speed_witness:
  "vec_length (vec_add (velocity (example_boid (Vector2 500 500) (Vector2 5 0)))
      (Vector2 (vec_x (acceleration (example_boid (Vector2 500 500) (Vector2 5 0)))
                 / MASS_EQUIVALENT (main8_config\<lparr>START_SPEED := 2\<rparr>))
               (vec_y (acceleration (example_boid (Vector2 500 500) (Vector2 5 0)))
                 / MASS_EQUIVALENT (main8_config\<lparr>START_SPEED := 2\<rparr>)))) = 5 \<and>
   MAX_SPEED (main8_config\<lparr>START_SPEED := 2\<rparr>) = 5 \<and>
   (\<exists>n. integrate_velocity (main8_config\<lparr>START_SPEED := 2\<rparr>)
           (example_boid (Vector2 500 500) (Vector2 5 0)) = Inr (vec_mul n (41 / 10)) \<and>
        vec_length (vec_mul n (41 / 10)) = 41 / 10)"
proof -
  let ?cfg = "main8_config\<lparr>START_SPEED := 2\<rparr>"
  let ?b = "example_boid (Vector2 500 500) (Vector2 5 0)"
  let ?v0 = "vec_add (velocity ?b)
               (Vector2 (vec_x (acceleration ?b) / MASS_EQUIVALENT ?cfg)
                        (vec_y (acceleration ?b) / MASS_EQUIVALENT ?cfg))"
  have sp: "vec_length ?v0 = 5"
    by (simp add: example_boid_def vec_add_def vec_length_horizontal)
  have cfg: "START_SPEED ?cfg = 2" "SPEED_ADJUSTMENT_FACTOR ?cfg = 3 / 10"
    "MASS_EQUIVALENT ?cfg = 2" "MAX_SPEED ?cfg = 5"
    by (simp_all add: main8_config_def)
  have h1: "vec_length ?v0 \<noteq> 0"
    unfolding sp by simp
  have h2: "vec_length ?v0 \<le> MAX_SPEED ?cfg"
    unfolding sp by (simp add: cfg)
  have h: "MASS_EQUIVALENT ?cfg \<noteq> 0"
    "0 \<le> START_SPEED ?cfg" "0 \<le> SPEED_ADJUSTMENT_FACTOR ?cfg"
    "SPEED_ADJUSTMENT_FACTOR ?cfg \<le> 1"
    by (simp_all add: cfg)
  have ns: "vec_length ?v0 + (START_SPEED ?cfg - vec_length ?v0) * SPEED_ADJUSTMENT_FACTOR ?cfg
            = 41 / 10"
    unfolding sp by (simp add: cfg)
  show ?thesis
    using relaxation_speed[OF h1 h2 h] sp cfg(4) unfolding ns by blast
qed

text \<open>
  C8 as stated fails on a tick where the velocity after the inertia update is zero: the
  guard \<^verbatim>\<open>if speed != 0\<close> skips the relaxation, the velocity stays zero, and its
  magnitude is not \<open>0 + (START_SPEED - 0) * SPEED_ADJUSTMENT_FACTOR\<close>.
\<close>

theorem relaxation_zero_speed_counterexample:
  "vec_length (vec_add (velocity (example_boid (Vector2 500 500) (Vector2 0 0)))
      (Vector2 (vec_x (acceleration (example_boid (Vector2 500 500) (Vector2 0 0)))
                 / MASS_EQUIVALENT main8_config)
               (vec_y (acceleration (example_boid (Vector2 500 500) (Vector2 0 0)))
                 / MASS_EQUIVALENT main8_config))) = 0 \<and>
   integrate_velocity main8_config (example_boid (Vector2 500 500) (Vector2 0 0))
     = Inr (Vector2 0 0) \<and>
   vec_length (Vector2 0 0)
     \<noteq> 0 + (START_SPEED main8_config - 0) * SPEED_ADJUSTMENT_FACTOR main8_config"
  by (simp add: integrate_velocity_def speed_cap_def speed_relax_def vec_div_def and_then_def
        example_boid_def main8_config_def vec_add_def vec_length_horizontal)


lemma forces_near_attractor:
  "accumulate_forces flat_noise main8_config
     (example_boid (Vector2 500 500) (Vector2 (9/4) 0)) 0
     [example_boid (Vector2 500 500) (Vector2 (9/4) 0)] [Vector2 (5001/10) 500]
   = Inr ((example_boid (Vector2 500 500) (Vector2 (9/4) 0))
            \<lparr>acceleration := Vector2 20 0, noise_offset_x := 1/100, noise_offset_y := 1/100\<rparr>)"
  by (simp add: accumulate_forces_def apply_rules_def zero_sums_def and_then_def
        avoid_edges_def edge_force_def BOUNDARY_PERCEPTION_def add_noise_def flat_noise_def
        attractor_step_def py_div_def vec_normalize_def
        example_boid_def main8_config_def vec_add_def vec_sub_def vec_mul_def
        vec_length_horizontal Let_def)

lemma velocity_near_attractor:
  "integrate_velocity main8_config
     ((example_boid (Vector2 500 500) (Vector2 (9/4) 0))
            \<lparr>acceleration := Vector2 20 0, noise_offset_x := 1/100, noise_offset_y := 1/100\<rparr>)
   = Inr (Vector2 (37/4) 0)"
  by (simp add: integrate_velocity_def speed_cap_def speed_relax_def vec_div_def and_then_def
        vec_normalize_def example_boid_def main8_config_def vec_add_def vec_mul_def
        vec_length_horizontal Let_def)

lemma color_near_attractor:
  "update_color main8_config
     ((example_boid (Vector2 500 500) (Vector2 (9/4) 0))
            \<lparr>acceleration := Vector2 20 0, noise_offset_x := 1/100, noise_offset_y := 1/100,
             velocity := Vector2 (37/4) 0, position := Vector2 (2037/4) 500\<rparr>) 0
     [example_boid (Vector2 500 500) (Vector2 (9/4) 0)]
   = Inr ((example_boid (Vector2 500 500) (Vector2 (9/4) 0))
            \<lparr>acceleration := Vector2 20 0, noise_offset_x := 1/100, noise_offset_y := 1/100,
             velocity := Vector2 (37/4) 0, position := Vector2 (2037/4) 500,
             color := (255, 50, 50)\<rparr>)"
  by (simp add: update_color_def py_div_def and_then_def PROXIMITY_NORMALIZATION_def
        ACCELERATION_UPPER_EXPECTED_def BASE_COLOR_def get_color_def py_int_def
        clamp_colors_def clamp_color_def
        example_boid_def main8_config_def vec_length_horizontal Let_def)

text \<open>
  C1 fails on the code. A boid created at \<open>(500, 500)\<close> with velocity \<open>(2.25, 0)\<close>, alone
  in the list, with one attractor at \<open>(500.1, 500)\<close>: the attractor adds the acceleration
  \<open>(20, 0)\<close>, the velocity after inertia is \<open>(12.25, 0)\<close>, the cap rescales it to
  \<open>(5, 0)\<close>, and the relaxation, which still uses the speed \<open>12.25\<close> read before the cap,
  rescales it to \<open>9.25\<close>. After damping the speed is \<open>8.7875\<close>, above
  \<open>MAX_SPEED = 5\<close>.
\<close>

theorem speed_cap_overridden:
  "update flat_noise main8_config (example_boid (Vector2 500 500) (Vector2 (9/4) 0)) 0
     [example_boid (Vector2 500 500) (Vector2 (9/4) 0)] [Vector2 (5001/10) 500]
   = Inr \<lparr>position = Vector2 (2037/4) 500, velocity = Vector2 (703/80) 0,
          acceleration = Vector2 20 0, color = (255, 50, 50),
          cohesion_weight = 2/5, alignment_weight = 1/5, separation_weight = 3,
          noise_offset_x = 1/100, noise_offset_y = 1/100\<rparr>
   \<and> MAX_SPEED main8_config < vec_length (Vector2 (703/80) 0)"
proof -
  have pos: "vec_add (position ((example_boid (Vector2 500 500) (Vector2 (9/4) 0))
            \<lparr>acceleration := Vector2 20 0, noise_offset_x := 1/100, noise_offset_y := 1/100\<rparr>))
            (Vector2 (37/4) 0) = Vector2 (2037/4) 500"
    by (simp add: example_boid_def vec_add_def)
  have "update flat_noise main8_config (example_boid (Vector2 500 500) (Vector2 (9/4) 0)) 0
     [example_boid (Vector2 500 500) (Vector2 (9/4) 0)] [Vector2 (5001/10) 500]
   = Inr \<lparr>position = Vector2 (2037/4) 500, velocity = Vector2 (703/80) 0,
          acceleration = Vector2 20 0, color = (255, 50, 50),
          cohesion_weight = 2/5, alignment_weight = 1/5, separation_weight = 3,
          noise_offset_x = 1/100, noise_offset_y = 1/100\<rparr>"
    unfolding update_def forces_near_attractor and_then_Inr velocity_near_attractor pos
    by (simp add: color_near_attractor[simplified] and_then_def)
       (simp add: example_boid_def vec_rmul_def)
  moreover have "MAX_SPEED main8_config < vec_length (Vector2 (703/80) 0)"
    by (simp add: main8_config_def vec_length_horizontal)
  ultimately show ?thesis by blast
qed


subsection \<open>Zero-length vectors\<close>

lemma coincident_scan_step:
  "scan_step main8_config (example_boid (Vector2 500 500) (Vector2 (9/4) 0)
       \<lparr>acceleration := Vector2 0 0\<rparr>) zero_sums
     (example_boid (Vector2 500 500) (Vector2 0 (9/4))) = Inl ValueError"
  by (simp add: scan_step_def distance_to_def vec_sub_def vec_length_horizontal
        vec_normalize_def and_then_def example_boid_def main8_config_def Let_def)

lemma coincident_update:
  "update pnoise1 main8_config (example_boid (Vector2 500 500) (Vector2 (9/4) 0)) 0
     [example_boid (Vector2 500 500) (Vector2 (9/4) 0),
      example_boid (Vector2 500 500) (Vector2 0 (9/4))] attractors = Inl ValueError"
  by (simp add: update_def accumulate_forces_def apply_rules_def coincident_scan_step
        and_then_def)

lemma centred_apply_rules:
  "apply_rules main8_config ((example_boid (Vector2 500 500) (Vector2 (9/4) 0))
       \<lparr>acceleration := Vector2 0 0\<rparr>) 0
     [example_boid (Vector2 500 500) (Vector2 (9/4) 0),
      example_boid (Vector2 490 500) (Vector2 0 (9/4)),
      example_boid (Vector2 510 500) (Vector2 0 (9/4))] = Inl ValueError"
  by (simp add: apply_rules_def scan_step_def distance_to_def vec_sub_def vec_add_def
        vec_div_def vec_mul_def vec_length_horizontal zero_sums_def
        vec_normalize_def and_then_def example_boid_def main8_config_def Let_def)

lemma centred_update:
  "update pnoise1 main8_config (example_boid (Vector2 500 500) (Vector2 (9/4) 0)) 0
     [example_boid (Vector2 500 500) (Vector2 (9/4) 0),
      example_boid (Vector2 490 500) (Vector2 0 (9/4)),
      example_boid (Vector2 510 500) (Vector2 0 (9/4))] attractors = Inl ValueError"
  unfolding update_def accumulate_forces_def centred_apply_rules
  by (simp add: and_then_def)

lemma attractor_at_subject:
  "attractor_step cfg self (position self) = Inr self"
  by (simp add: attractor_step_def vec_sub_def vec_length_def)

text \<open>
  C4 fails on the code. \<open>apply_rules\<close> normalises without a guard: for two boids at the
  same position, and for a subject at the mean position of its neighbours, \<open>update\<close>
  raises ValueError, whatever the noise and the attractors. Only \<open>apply_attractors\<close> has
  the guard: an attractor at the subject's position contributes nothing.
\<close>

theorem unguarded_normalize_raises:
  "update pnoise1 main8_config (example_boid (Vector2 500 500) (Vector2 (9/4) 0)) 0
     [example_boid (Vector2 500 500) (Vector2 (9/4) 0),
      example_boid (Vector2 500 500) (Vector2 0 (9/4))] attractors = Inl ValueError
   \<and> update pnoise1 main8_config (example_boid (Vector2 500 500) (Vector2 (9/4) 0)) 0
     [example_boid (Vector2 500 500) (Vector2 (9/4) 0),
      example_boid (Vector2 490 500) (Vector2 0 (9/4)),
      example_boid (Vector2 510 500) (Vector2 0 (9/4))] attractors = Inl ValueError
   \<and> attractor_step cfg self (position self) = Inr self"
  using coincident_update centred_update attractor_at_subject by blast

subsection \<open>The field sampler\<close>

lemma field_step_cong:
  "same_field_inputs c c' \<Longrightarrow> field_step c X Y net a = field_step c' X Y net a"
  by (simp add: same_field_inputs_def field_step_def)

lemma net_field_cong:
  "same_field_inputs c c' \<Longrightarrow> net_field c X Y net as = net_field c' X Y net as"
  by (induction as arbitrary: net) (simp_all add: field_step_cong)

lemma cell_brightness_cong:
  "same_field_inputs c c' \<Longrightarrow> cell_brightness c as X Y = cell_brightness c' as X Y"
  by (simp add: cell_brightness_def net_field_cong[of c c'] Let_def)
     (simp add: same_field_inputs_def)

lemma brightness_row_cong:
  "same_field_inputs c c' \<Longrightarrow> brightness_row c as Y xs = brightness_row c' as Y xs"
  by (induction xs) (simp_all add: cell_brightness_cong[of c c'] split: sum.splits)

lemma brightness_rows_cong:
  "same_field_inputs c c' \<Longrightarrow> brightness_rows c as xs ys = brightness_rows c' as xs ys"
  by (induction ys) (simp_all add: brightness_row_cong[of c c'] split: sum.splits)

lemma compute_background_surface_cong:
  assumes "same_field_inputs c c'"
  shows "compute_background_surface c as = compute_background_surface c' as"
proof -
  have "SCREEN_WIDTH c = SCREEN_WIDTH c'" "SCREEN_HEIGHT c = SCREEN_HEIGHT c'"
    using assms by (simp_all add: same_field_inputs_def)
  then show ?thesis
    by (simp add: compute_background_surface_def brightness_rows_cong[OF assms])
qed

lemma cell_brightness_no_attractors:
  "ATTRACTOR_FORCE_MAX cfg \<noteq> 0 \<Longrightarrow> cell_brightness cfg [] X Y = Inr 0"
  by (simp add: cell_brightness_def py_int_def)

lemma brightness_row_no_attractors:
  "ATTRACTOR_FORCE_MAX cfg \<noteq> 0 \<Longrightarrow>
   brightness_row cfg [] Y xs = Inr (replicate (length xs) 0)"
  by (induction xs) (simp_all add: cell_brightness_no_attractors)

lemma brightness_rows_no_attractors:
  "ATTRACTOR_FORCE_MAX cfg \<noteq> 0 \<Longrightarrow>
   brightness_rows cfg [] xs ys = Inr (replicate (length ys) (replicate (length xs) 0))"
  by (induction ys) (simp_all add: brightness_row_no_attractors)

lemma linspace_length:
  "0 \<le> num \<Longrightarrow> \<exists>xs. linspace start stop num = Inr xs \<and> length xs = nat num"
  by (simp add: linspace_def)

lemma py_int_quarter: "0 \<le> w \<Longrightarrow> py_int (real_of_int w * BG_SCALE) = w div 4"
proof -
  assume w: "0 \<le> w"
  have "real_of_int w * BG_SCALE = real_of_int w / real_of_int 4"
    by (simp add: BG_SCALE_def)
  then have "\<lfloor>real_of_int w * BG_SCALE\<rfloor> = w div 4"
    by (simp only: floor_divide_of_int_eq)
  then show ?thesis
    using w by (simp add: py_int_def BG_SCALE_def)
qed

text \<open>
  C10. The brightness grid is a function of the attractor list, the world bounds and the
  attractor-force constants alone: two evaluations whose configurations agree on these
  (whatever else differs) and whose attractor lists are the same return the same grid,
  exception or not. With no attractors, non-negative screen dimensions and a non-zero
  \<open>ATTRACTOR_FORCE_MAX\<close>, the grid has \<open>SCREEN_HEIGHT div 4\<close> rows of
  \<open>SCREEN_WIDTH div 4\<close> cells, each of brightness 0, the least unsigned byte.
\<close>

theorem field_sampler_pure:
  "(same_field_inputs cfg cfg' \<longrightarrow>
      compute_background_surface cfg attractors = compute_background_surface cfg' attractors)
   \<and> (0 \<le> SCREEN_WIDTH cfg \<and> 0 \<le> SCREEN_HEIGHT cfg \<and> ATTRACTOR_FORCE_MAX cfg \<noteq> 0 \<longrightarrow>
      compute_background_surface cfg [] =
        Inr (replicate (nat (SCREEN_HEIGHT cfg div 4))
              (replicate (nat (SCREEN_WIDTH cfg div 4)) 0)))"
proof (intro conjI impI)
  assume "same_field_inputs cfg cfg'"
  then show "compute_background_surface cfg attractors
             = compute_background_surface cfg' attractors"
    by (rule compute_background_surface_cong)
next
  assume a: "0 \<le> SCREEN_WIDTH cfg \<and> 0 \<le> SCREEN_HEIGHT cfg \<and> ATTRACTOR_FORCE_MAX cfg \<noteq> 0"
  then have w: "py_int (real_of_int (SCREEN_WIDTH cfg) * BG_SCALE) = SCREEN_WIDTH cfg div 4"
    and h: "py_int (real_of_int (SCREEN_HEIGHT cfg) * BG_SCALE) = SCREEN_HEIGHT cfg div 4"
    by (simp_all add: py_int_quarter)
  have w0: "0 \<le> SCREEN_WIDTH cfg div 4" and h0: "0 \<le> SCREEN_HEIGHT cfg div 4"
    using a by (simp_all add: pos_imp_zdiv_nonneg_iff)
  obtain xs where xs: "linspace 0 (real_of_int (SCREEN_WIDTH cfg)) (SCREEN_WIDTH cfg div 4) = Inr xs"
      "length xs = nat (SCREEN_WIDTH cfg div 4)"
    using linspace_length[OF w0] by blast
  obtain ys where ys: "linspace 0 (real_of_int (SCREEN_HEIGHT cfg)) (SCREEN_HEIGHT cfg div 4) = Inr ys"
      "length ys = nat (SCREEN_HEIGHT cfg div 4)"
    using linspace_length[OF h0] by blast
  show "compute_background_surface cfg [] =
        Inr (replicate (nat (SCREEN_HEIGHT cfg div 4))
              (replicate (nat (SCREEN_WIDTH cfg div 4)) 0))"
    using a xs ys
    by (simp add: compute_background_surface_def w h and_then_def
          brightness_rows_no_attractors)
qed


theorem field_sampler_pure_witness:
  "same_field_inputs main8_config (main8_config\<lparr>START_SPEED := 2\<rparr>) \<and>
   compute_background_surface main8_config [Vector2 100 100]
     = compute_background_surface (main8_config\<lparr>START_SPEED := 2\<rparr>) [Vector2 100 100] \<and>
   compute_background_surface main8_config [] = Inr (replicate 250 (replicate 375 0))"
proof -
  have s: "same_field_inputs main8_config (main8_config\<lparr>START_SPEED := 2\<rparr>)"
    by (simp add: same_field_inputs_def)
  have h: "0 \<le> SCREEN_WIDTH main8_config \<and> 0 \<le> SCREEN_HEIGHT main8_config \<and>
           ATTRACTOR_FORCE_MAX main8_config \<noteq> 0"
    by (simp add: main8_config_def)
  have d: "nat (SCREEN_HEIGHT main8_config div 4) = 250"
    "nat (SCREEN_WIDTH main8_config div 4) = 375"
    by (simp_all add: main8_config_def)
  show ?thesis
    using field_sampler_pure[of main8_config "main8_config\<lparr>START_SPEED := 2\<rparr>"
        "[Vector2 100 100]"] s h
    unfolding d by blast
qed

subsection \<open>The update loop\<close>

lemma update_loop_length:
  "update_loop pn cfg atts is bs = Inr bs' \<Longrightarrow> length bs' = length bs"
proof (induction "is" arbitrary: bs)
  case Nil
  then show ?case by simp
next
  case (Cons i "is")
  then show ?case
    by (auto split: sum.splits)
qed

lemma update_loop_untouched:
  "update_loop pn cfg atts is bs = Inr bs' \<Longrightarrow> j \<notin> set is \<Longrightarrow> bs' ! j = bs ! j"
proof (induction "is" arbitrary: bs)
  case Nil
  then show ?case by simp
next
  case (Cons i "is")
  then show ?case
    by (auto split: sum.splits)
qed

lemma update_loop_sees:
  assumes "update_loop pn cfg atts [k..<n] bs = Inr bs'" and "n = length bs"
    and "k \<le> i" and "i < n"
  shows "update pn cfg (bs ! i) i (take i bs' @ drop i bs) atts = Inr (bs' ! i)"
  using assms
proof (induction "n - k" arbitrary: k bs)
  case 0
  then show ?case by simp
next
  case (Suc d)
  then have kn: "k < n" by linarith
  then have idx: "[k..<n] = k # [Suc k..<n]"
    by (simp add: upt_conv_Cons)
  from Suc.prems(1) obtain b where
    b: "update pn cfg (bs ! k) k bs atts = Inr b"
    and rest: "update_loop pn cfg atts [Suc k..<n] (bs[k := b]) = Inr bs'"
    unfolding idx by (auto split: sum.splits)
  have len': "length bs' = length bs"
    using update_loop_length[OF rest] by simp
  have same: "j \<le> k \<Longrightarrow> bs' ! j = (bs[k := b]) ! j" for j
    using update_loop_untouched[OF rest, of j] by simp
  show ?case
  proof (cases "i = k")
    case True
    have "take k bs' = take k bs"
    proof (rule nth_equalityI)
      show "length (take k bs') = length (take k bs)"
        using len' by simp
    next
      fix j assume "j < length (take k bs')"
      then have "j < k" by simp
      then show "take k bs' ! j = take k bs ! j"
        using same[of j] by simp
    qed
    then have pop: "take k bs' @ drop k bs = bs"
      by simp
    have "bs' ! k = b"
      using same[of k] kn Suc.prems(2) by simp
    then show ?thesis
      using b True pop by simp
  next
    case False
    then have ki: "Suc k \<le> i" using Suc.prems(3) by simp
    have d: "d = n - Suc k" using Suc.hyps(2) by simp
    have n': "n = length (bs[k := b])" using Suc.prems(2) by simp
    have "update pn cfg ((bs[k := b]) ! i) i (take i bs' @ drop i (bs[k := b])) atts
          = Inr (bs' ! i)"
      using Suc.hyps(1)[OF d rest n' ki Suc.prems(4)] .
    moreover have "(bs[k := b]) ! i = bs ! i"
      using False by simp
    moreover have "drop i (bs[k := b]) = drop i bs"
      using ki by simp
    ultimately show ?thesis by simp
  qed
qed

text \<open>
  C2, as amended. The loop of \<open>main\<close> updates the boids in place, in list order. When a
  tick completes without an exception, the population has the same size and the update of
  the agent at index \<open>i\<close> was computed against the list whose entries before \<open>i\<close> already
  carry this tick's updated state and whose entries from \<open>i\<close> on carry the previous
  tick's state. For \<open>i = 0\<close> that list is the previous-tick snapshot; every later agent
  sees the updates of the agents before it.
\<close>

theorem tick_sequential:
  assumes "tick pn cfg atts bs = Inr bs'"
  shows "length bs' = length bs \<and>
         (\<forall>i<length bs.
            update pn cfg (bs ! i) i (take i bs' @ drop i bs) atts = Inr (bs' ! i))"
  using assms update_loop_length[of pn cfg atts "[0..<length bs]" bs bs']
    update_loop_sees[of pn cfg atts 0 "length bs" bs bs']
  by (simp add: tick_def)


text \<open>The equations that evaluate one \<open>update\<close> of an example boid on a horizontal line.\<close>

lemmas eval_defs = update_def accumulate_forces_def apply_rules_def zero_sums_def and_then_def
        scan_step_def distance_to_def vec_div_def
        avoid_edges_def edge_force_def BOUNDARY_PERCEPTION_def add_noise_def flat_noise_def
        integrate_velocity_def speed_cap_def speed_relax_def
        update_color_def py_div_def PROXIMITY_NORMALIZATION_def
        ACCELERATION_UPPER_EXPECTED_def BASE_COLOR_def get_color_def py_int_def
        clamp_colors_def clamp_color_def vec_rmul_def
        vec_normalize_def
        example_boid_def main8_config_def vec_add_def vec_sub_def vec_mul_def
        vec_length_horizontal Let_def power3_eq_cube

lemma first_update:
  "update flat_noise main8_config (example_boid (Vector2 500 500) (Vector2 (9/4) 0)) 0
     [example_boid (Vector2 500 500) (Vector2 (9/4) 0),
      example_boid (Vector2 531 500) (Vector2 (- (9/4)) 0)] []
   = Inr \<lparr>position = Vector2 (2009/4) 500, velocity = Vector2 (171/80) 0,
          acceleration = Vector2 0 0, color = (50, 50, 51),
          cohesion_weight = 2/5, alignment_weight = 1/5, separation_weight = 3,
          noise_offset_x = 1/100, noise_offset_y = 1/100\<rparr>"
  by (simp add: eval_defs)

lemma second_update_snapshot:
  "update flat_noise main8_config (example_boid (Vector2 531 500) (Vector2 (- (9/4)) 0)) 1
     [example_boid (Vector2 500 500) (Vector2 (9/4) 0),
      example_boid (Vector2 531 500) (Vector2 (- (9/4)) 0)] []
   = Inr \<lparr>position = Vector2 (2115/4) 500, velocity = Vector2 (- (171/80)) 0,
          acceleration = Vector2 0 0, color = (50, 50, 51),
          cohesion_weight = 2/5, alignment_weight = 1/5, separation_weight = 3,
          noise_offset_x = 1/100, noise_offset_y = 1/100\<rparr>"
  by (simp add: eval_defs)

lemma second_update_in_place:
  "update flat_noise main8_config (example_boid (Vector2 531 500) (Vector2 (- (9/4)) 0)) 1
     [\<lparr>position = Vector2 (2009/4) 500, velocity = Vector2 (171/80) 0,
          acceleration = Vector2 0 0, color = (50, 50, 51),
          cohesion_weight = 2/5, alignment_weight = 1/5, separation_weight = 3,
          noise_offset_x = 1/100, noise_offset_y = 1/100\<rparr>,
      example_boid (Vector2 531 500) (Vector2 (- (9/4)) 0)] []
   = Inr \<lparr>position = Vector2 (97298491/184000) 500,
          velocity = Vector2 (- (7704671/3680000)) 0,
          acceleration = Vector2 (1213/9200) 0, color = (50, 50, 54),
          cohesion_weight = 2/5, alignment_weight = 1/5, separation_weight = 3,
          noise_offset_x = 1/100, noise_offset_y = 1/100\<rparr>"
  by (simp add: eval_defs)

lemma tick_example:
  "tick flat_noise main8_config [] example_flock
   = Inr [\<lparr>position = Vector2 (2009/4) 500, velocity = Vector2 (171/80) 0,
          acceleration = Vector2 0 0, color = (50, 50, 51),
          cohesion_weight = 2/5, alignment_weight = 1/5, separation_weight = 3,
          noise_offset_x = 1/100, noise_offset_y = 1/100\<rparr>,
         \<lparr>position = Vector2 (97298491/184000) 500,
          velocity = Vector2 (- (7704671/3680000)) 0,
          acceleration = Vector2 (1213/9200) 0, color = (50, 50, 54),
          cohesion_weight = 2/5, alignment_weight = 1/5, separation_weight = 3,
          noise_offset_x = 1/100, noise_offset_y = 1/100\<rparr>]"
proof -
  have idx: "[0..<length example_flock] = [0, 1]"
    by (simp add: example_flock_def upt_conv_Cons)
  show ?thesis
    unfolding tick_def idx
    by (simp add: example_flock_def first_update second_update_in_place[unfolded One_nat_def])
qed

lemma snapshot_tick_example:
  "snapshot_tick flat_noise main8_config [] example_flock
   = Inr [\<lparr>position = Vector2 (2009/4) 500, velocity = Vector2 (171/80) 0,
          acceleration = Vector2 0 0, color = (50, 50, 51),
          cohesion_weight = 2/5, alignment_weight = 1/5, separation_weight = 3,
          noise_offset_x = 1/100, noise_offset_y = 1/100\<rparr>,
         \<lparr>position = Vector2 (2115/4) 500, velocity = Vector2 (- (171/80)) 0,
          acceleration = Vector2 0 0, color = (50, 50, 51),
          cohesion_weight = 2/5, alignment_weight = 1/5, separation_weight = 3,
          noise_offset_x = 1/100, noise_offset_y = 1/100\<rparr>]"
proof -
  have idx: "[0..<length example_flock] = [0, 1]"
    by (simp add: example_flock_def upt_conv_Cons)
  show ?thesis
    unfolding snapshot_tick_def idx
    by (simp add: example_flock_def first_update second_update_snapshot[unfolded One_nat_def])
qed

text \<open>
  C2 as stated fails: on the example flock the in-place loop and the update from a
  snapshot differ. In the snapshot neither boid perceives the other (distance 31). In the
  loop the first boid has already moved to \<open>x = 502.25\<close> when the second is updated, so
  the second perceives it (distance 28.75) and is steered by its new position and its
  new, damped velocity.
\<close>

theorem in_place_update_counterexample:
  "tick flat_noise main8_config [] example_flock
     \<noteq> snapshot_tick flat_noise main8_config [] example_flock"
  unfolding tick_example snapshot_tick_example by simp

theorem tick_sequential_witness:
  "tick flat_noise main8_config [] example_flock
   = Inr [\<lparr>position = Vector2 (2009/4) 500, velocity = Vector2 (171/80) 0,
          acceleration = Vector2 0 0, color = (50, 50, 51),
          cohesion_weight = 2/5, alignment_weight = 1/5, separation_weight = 3,
          noise_offset_x = 1/100, noise_offset_y = 1/100\<rparr>,
         \<lparr>position = Vector2 (97298491/184000) 500,
          velocity = Vector2 (- (7704671/3680000)) 0,
          acceleration = Vector2 (1213/9200) 0, color = (50, 50, 54),
          cohesion_weight = 2/5, alignment_weight = 1/5, separation_weight = 3,
          noise_offset_x = 1/100, noise_offset_y = 1/100\<rparr>]
   \<and> update flat_noise main8_config (example_flock ! 1) 1
       [\<lparr>position = Vector2 (2009/4) 500, velocity = Vector2 (171/80) 0,
          acceleration = Vector2 0 0, color = (50, 50, 51),
          cohesion_weight = 2/5, alignment_weight = 1/5, separation_weight = 3,
          noise_offset_x = 1/100, noise_offset_y = 1/100\<rparr>,
        example_flock ! 1] []
     = Inr \<lparr>position = Vector2 (97298491/184000) 500,
          velocity = Vector2 (- (7704671/3680000)) 0,
          acceleration = Vector2 (1213/9200) 0, color = (50, 50, 54),
          cohesion_weight = 2/5, alignment_weight = 1/5, separation_weight = 3,
          noise_offset_x = 1/100, noise_offset_y = 1/100\<rparr>"
proof -
  have len: "length example_flock = 2" and one: "(1::nat) < 2"
    by (simp_all add: example_flock_def)
  have dr: "drop 1 example_flock = [example_flock ! 1]"
    by (simp add: example_flock_def)
  from tick_sequential[OF tick_example]
  have "\<forall>i<length example_flock. update flat_noise main8_config (example_flock ! i) i
       (take i [\<lparr>position = Vector2 (2009/4) 500, velocity = Vector2 (171/80) 0,
          acceleration = Vector2 0 0, color = (50, 50, 51),
          cohesion_weight = 2/5, alignment_weight = 1/5, separation_weight = 3,
          noise_offset_x = 1/100, noise_offset_y = 1/100\<rparr>,
         \<lparr>position = Vector2 (97298491/184000) 500,
          velocity = Vector2 (- (7704671/3680000)) 0,
          acceleration = Vector2 (1213/9200) 0, color = (50, 50, 54),
          cohesion_weight = 2/5, alignment_weight = 1/5, separation_weight = 3,
          noise_offset_x = 1/100, noise_offset_y = 1/100\<rparr>] @ drop i example_flock) []
      = Inr ([\<lparr>position = Vector2 (2009/4) 500, velocity = Vector2 (171/80) 0,
          acceleration = Vector2 0 0, color = (50, 50, 51),
          cohesion_weight = 2/5, alignment_weight = 1/5, separation_weight = 3,
          noise_offset_x = 1/100, noise_offset_y = 1/100\<rparr>,
         \<lparr>position = Vector2 (97298491/184000) 500,
          velocity = Vector2 (- (7704671/3680000)) 0,
          acceleration = Vector2 (1213/9200) 0, color = (50, 50, 54),
          cohesion_weight = 2/5, alignment_weight = 1/5, separation_weight = 3,
          noise_offset_x = 1/100, noise_offset_y = 1/100\<rparr>] ! i)"
    by blast
  from this[rule_format, of 1] show ?thesis
    using tick_example by (simp add: len dr[unfolded One_nat_def])
qed

end
